theory Spec2Isabelle
  imports Complex_Main "HOL-Library.Sublist"
begin

section \<open>JavaScript strings and values\<close>

text \<open>
  A JavaScript string is modelled as a \<open>string\<close>; the characters stand for the code units
  below 256. The empty string is falsy, every other string is truthy; \<open>undefined\<close> is
  \<open>None\<close>.
\<close>

definition truthy :: "string option \<Rightarrow> bool" where
  "truthy v = (case v of None \<Rightarrow> False | Some s \<Rightarrow> s \<noteq> [])"

text \<open>\<open>v || d\<close> on an optional string.\<close>

definition or_else :: "string option \<Rightarrow> string \<Rightarrow> string" where
  "or_else v d = (case v of None \<Rightarrow> d | Some s \<Rightarrow> if s = [] then d else s)"

text \<open>
  The white space of \<open>\s\<close> and of \<open>String.prototype.trim\<close> among the code units below
  256: TAB, LF, VT, FF, CR, SPACE and NO-BREAK SPACE.
\<close>

definition is_space :: "char \<Rightarrow> bool" where
  "is_space c = (of_char c \<in> {9, 10, 11, 12, 13, 32, 160 :: nat})"

definition trim :: "string \<Rightarrow> string" where
  "trim s = rev (dropWhile is_space (rev (dropWhile is_space s)))"

text \<open>\<open>s.includes(sub)\<close>: \<open>sub\<close> occurs in \<open>s\<close> as a contiguous run.\<close>

definition includes_str :: "string \<Rightarrow> string \<Rightarrow> bool" where
  "includes_str s sub = sublist sub s"

text \<open>\<open>toLowerCase\<close>, on the ASCII letters.\<close>

definition lower_char :: "char \<Rightarrow> char" where
  "lower_char c = (let n = (of_char c :: nat) in if 65 \<le> n \<and> n \<le> 90 then char_of (n + 32) else c)"

definition toLowerCase :: "string \<Rightarrow> string" where
  "toLowerCase s = map lower_char s"

text \<open>\<open>s.split(',')[1]\<close>: the text between the first comma and the next; undefined without a comma.\<close>

definition split_comma_1 :: "string \<Rightarrow> string option" where
  "split_comma_1 s =
     (case dropWhile (\<lambda>c. c \<noteq> CHR '','') s of
        [] \<Rightarrow> None
      | _ # rest \<Rightarrow> Some (takeWhile (\<lambda>c. c \<noteq> CHR '','') rest))"

section \<open>Errors\<close>

text \<open>
  A thrown value, read through the three properties the code looks at. An absent property
  is \<open>None\<close>. \<open>new Error(m)\<close> has the message \<open>m\<close> and neither status nor code.
\<close>

record js_error =
  message :: "string option"
  status :: "string option"
  code :: "int option"

definition Error :: "string \<Rightarrow> js_error" where
  "Error m = \<lparr>message = Some m, status = None, code = None\<rparr>"

definition isQuotaOrAuthError :: "js_error \<Rightarrow> bool" where
  "isQuotaOrAuthError error =
     (let msg = or_else (message error) [];
          st = or_else (status error) [];
          cd = (case code error of None \<Rightarrow> 0 | Some c \<Rightarrow> c)
      in includes_str msg ''Requested entity was not found''
         \<or> includes_str msg ''quota''
         \<or> includes_str msg ''RESOURCE_EXHAUSTED''
         \<or> st = ''RESOURCE_EXHAUSTED''
         \<or> cd = 429)"

section \<open>The service layer\<close>

definition GEMINI_CODE_MODEL :: string where
  "GEMINI_CODE_MODEL = ''gemini-3-pro-preview''"

definition GEMINI_IMAGE_MODEL :: string where
  "GEMINI_IMAGE_MODEL = ''gemini-3-pro-image-preview''"

definition FLUX_API_BASE :: string where
  "FLUX_API_BASE = ''https://black-forest-labs-flux-2-klein-9b.hf.space/gradio_api/call/generate''"

record IdentificationResult =
  label :: string
  confidence :: real
  description :: string
  type :: string

text \<open>
  A part of a request or of a response: a text, or inline data with its mime type. The
  data of a request part is what the caller passed, which may be undefined.
\<close>

datatype part = TextPart string | InlineData "string option" string

text \<open>The three constant \<open>config\<close> objects of the three call sites.\<close>

datatype gen_config = IdentificationConfig | ArtifactConfig | ImageConfig

record gen_request =
  model :: string
  parts :: "part list"
  config :: gen_config

text \<open>
  A response of the hosted model: its \<open>text\<close>, and the parts of its first candidate
  (\<open>candidates?.[0]?.content?.parts\<close>) when there are any.
\<close>

record gen_response =
  response_text :: "string option"
  candidate_parts :: "part list option"

text \<open>
  What the SSE message handler of the image endpoint reads from an event: a payload that
  \<open>JSON.parse\<close> rejects, or the fields \<open>msg\<close>, \<open>success\<close> and \<open>output.data[0]\<close>.
\<close>

datatype flux_output = OutString string | OutObject "string option"

datatype sse_data = Unparseable | Payload string bool "flux_output option"

datatype sse_event = Message sse_data | StreamError js_error

text \<open>
  The outcome of the job submission: \<open>fetch\<close> rejects, the response is not ok, reading
  the body as JSON (or destructuring it) throws, or the body carries an event id.
\<close>

datatype post_outcome = FetchRejects js_error | HttpNotOk | JsonRejects js_error | PostOk string

text \<open>A \<open>Date\<close>: its time value in milliseconds, or the invalid date (time value NaN).\<close>

datatype js_date = Date int | InvalidDate

text \<open>A \<open>File\<close>, read through its \<open>name\<close> and its \<open>type\<close>.\<close>

record File =
  file_name :: string
  file_type :: string

text \<open>
  The collaborators outside the repository: the hosted model, \<open>JSON.parse\<close> on a
  detection list, the file reader, the image endpoint (the submission, and the events its
  stream delivers before the 60 second timer fires), \<open>crypto.randomUUID\<close> and the clock.
\<close>

record env =
  generateContent :: "gen_request \<Rightarrow> js_error + gen_response"
  JSON_parse :: "string \<Rightarrow> js_error + IdentificationResult list"
  readAsDataURL :: "File \<Rightarrow> js_error + string"
  flux_post :: "string \<Rightarrow> post_outcome"
  flux_events :: "string \<Rightarrow> sse_event list"
  randomUUID :: string
  now :: int

definition KEY_RESET_REQUIRED :: js_error where
  "KEY_RESET_REQUIRED = Error ''KEY_RESET_REQUIRED''"

text \<open>The \<open>catch\<close> block shared by \<open>generateAIImage\<close> and \<open>bringToLife\<close>.\<close>

definition rethrow_classified :: "js_error \<Rightarrow> js_error + 'a" where
  "rethrow_classified error = (if isQuotaOrAuthError error then Inl KEY_RESET_REQUIRED else Inl error)"

definition identify_request :: "string option \<Rightarrow> string \<Rightarrow> gen_request" where
  "identify_request fileBase64 mimeType =
     \<lparr>model = GEMINI_CODE_MODEL,
      parts = [TextPart ''Perform a complete YOLO26 visual scan and identify all functional components.'',
               InlineData fileBase64 mimeType],
      config = IdentificationConfig\<rparr>"

text \<open>\<open>JSON.parse(response.text || "[]")\<close>; the literal \<open>[]\<close> parses to the empty list.\<close>

definition parse_detections :: "env \<Rightarrow> string option \<Rightarrow> js_error + IdentificationResult list" where
  "parse_detections e t = (let s = or_else t ''[]'' in if s = ''[]'' then Inr [] else JSON_parse e s)"

definition identifyImage :: "env \<Rightarrow> string option \<Rightarrow> string \<Rightarrow> js_error + IdentificationResult list" where
  "identifyImage e fileBase64 mimeType =
     (case (case generateContent e (identify_request fileBase64 mimeType) of
              Inl error \<Rightarrow> Inl error
            | Inr response \<Rightarrow> parse_detections e (response_text response)) of
        Inl error \<Rightarrow> (if isQuotaOrAuthError error then Inl KEY_RESET_REQUIRED else Inr [])
      | Inr detections \<Rightarrow> Inr detections)"

subsection \<open>Artifact generation\<close>

definition LF :: char where
  "LF = CHR 0x0A"

definition artifact_prompt :: "string \<Rightarrow> string option \<Rightarrow> string option \<Rightarrow> string" where
  "artifact_prompt prompt fileBase64 detectionContext =
     (let finalPrompt =
            (if truthy fileBase64
             then ''Exhaustively analyze this visual input. Identify all interactive components, data states, and navigation patterns. Build a sophisticated, single-page application that brings this concept to life with high interactivity and polished aesthetics.''
             else if prompt \<noteq> [] then prompt
             else ''Create a state-of-the-art interactive experience.'')
      in case detectionContext of
           None \<Rightarrow> finalPrompt
         | Some ctx \<Rightarrow>
             if ctx = [] then finalPrompt
             else finalPrompt @ [LF, LF]
                  @ ''SUPPLEMENTAL VISION DATA (Eburon-YOLO26 Engine Results):'' @ [LF] @ ctx)"

definition artifact_request ::
  "string \<Rightarrow> string option \<Rightarrow> string option \<Rightarrow> string option \<Rightarrow> gen_request" where
  "artifact_request prompt fileBase64 mimeType detectionContext =
     \<lparr>model = GEMINI_CODE_MODEL,
      parts = TextPart (artifact_prompt prompt fileBase64 detectionContext)
              # (case mimeType of
                   None \<Rightarrow> []
                 | Some m \<Rightarrow> if truthy fileBase64 \<and> m \<noteq> [] then [InlineData fileBase64 m] else []),
      config = ArtifactConfig\<rparr>"

definition FENCE :: string where
  "FENCE = replicate 3 (CHR 0x60)"

text \<open>\<open>text.replace(/^```html\s*/i, '')\<close>: the pattern matches at the start of the text only.\<close>

definition strip_html_fence :: "string \<Rightarrow> string" where
  "strip_html_fence t =
     (if toLowerCase (take 7 t) = FENCE @ ''html'' then dropWhile is_space (drop 7 t) else t)"

text \<open>\<open>text.replace(/^```\s*/, '')\<close>.\<close>

definition strip_open_fence :: "string \<Rightarrow> string" where
  "strip_open_fence t = (if take 3 t = FENCE then dropWhile is_space (drop 3 t) else t)"

text \<open>
  \<open>text.replace(/```$/, '')\<close>: without the \<open>m\<close> flag, \<open>$\<close> matches at the very end of the
  text only.
\<close>

definition strip_close_fence :: "string \<Rightarrow> string" where
  "strip_close_fence t = (if suffix FENCE t then take (length t - 3) t else t)"

definition clean_output :: "string option \<Rightarrow> string" where
  "clean_output response_text_value =
     trim (strip_close_fence (strip_open_fence (strip_html_fence
       (or_else response_text_value ''<!-- Failed to generate content -->''))))"

definition bringToLife ::
  "env \<Rightarrow> string \<Rightarrow> string option \<Rightarrow> string option \<Rightarrow> string option \<Rightarrow> js_error + string" where
  "bringToLife e prompt fileBase64 mimeType detectionContext =
     (case generateContent e (artifact_request prompt fileBase64 mimeType detectionContext) of
        Inl error \<Rightarrow> rethrow_classified error
      | Inr response \<Rightarrow> Inr (clean_output (response_text response)))"

subsection \<open>Image generation\<close>

definition image_request :: "string \<Rightarrow> gen_request" where
  "image_request prompt =
     \<lparr>model = GEMINI_IMAGE_MODEL,
      parts = [TextPart (''Generate a photorealistic, cinematic, and highly detailed artistic concept of: ''
                         @ prompt @ ''. High resolution, 4k, digital art style.'')],
      config = ImageConfig\<rparr>"

text \<open>The loop over the parts of the first candidate: the data of the first inline part.\<close>

fun first_inline :: "part list \<Rightarrow> string option option" where
  "first_inline [] = None"
| "first_inline (InlineData d m # ps) = Some d"
| "first_inline (TextPart t # ps) = first_inline ps"

definition template_value :: "string option \<Rightarrow> string" where
  "template_value v = (case v of None \<Rightarrow> ''undefined'' | Some s \<Rightarrow> s)"

definition generateAIImage :: "env \<Rightarrow> string \<Rightarrow> js_error + string" where
  "generateAIImage e prompt =
     (case (case generateContent e (image_request prompt) of
              Inl error \<Rightarrow> Inl error
            | Inr response \<Rightarrow>
                (case (case candidate_parts response of None \<Rightarrow> None | Some ps \<Rightarrow> first_inline ps) of
                   Some d \<Rightarrow> Inr (''data:image/png;base64,'' @ template_value d)
                 | None \<Rightarrow> Inl (Error ''No image data returned from Gemini Pro Image''))) of
        Inl error \<Rightarrow> rethrow_classified error
      | Inr url \<Rightarrow> Inr url)"

definition NO_IMAGE_DATA :: js_error where
  "NO_IMAGE_DATA = Error ''FLUX generation failed to return image data''"

definition TIMED_OUT :: js_error where
  "TIMED_OUT = Error ''FLUX generation timed out''"

text \<open>
  The promise built around the event source. It settles once: on the first completion
  message, on the first stream error, or, when the events run out, on the timer. A message
  whose handler throws, or whose \<open>msg\<close> is not \<open>process_completed\<close>, leaves it pending.
\<close>

fun await_stream :: "sse_event list \<Rightarrow> js_error + string" where
  "await_stream [] = Inl TIMED_OUT"
| "await_stream (StreamError err # rest) = Inl err"
| "await_stream (Message Unparseable # rest) = await_stream rest"
| "await_stream (Message (Payload msg success out) # rest) =
     (if msg = ''process_completed''
      then (if success
            then (case out of
                    None \<Rightarrow> Inl NO_IMAGE_DATA
                  | Some (OutString r) \<Rightarrow> if r \<noteq> [] then Inr r else Inl NO_IMAGE_DATA
                  | Some (OutObject u) \<Rightarrow> if truthy u then Inr (or_else u []) else Inl NO_IMAGE_DATA)
            else Inl NO_IMAGE_DATA)
      else await_stream rest)"

text \<open>
  The \<open>try\<close> block awaits the submission and its body; the promise of the stream is
  returned from it without \<open>await\<close>, so its rejection is the rejection of the call and
  does not reach the \<open>catch\<close> block.
\<close>

definition generateFluxImage :: "env \<Rightarrow> string \<Rightarrow> js_error + string" where
  "generateFluxImage e prompt =
     (case flux_post e prompt of
        FetchRejects err \<Rightarrow> generateAIImage e prompt
      | HttpNotOk \<Rightarrow> generateAIImage e prompt
      | JsonRejects err \<Rightarrow> generateAIImage e prompt
      | PostOk event_id \<Rightarrow> await_stream (flux_events e (FLUX_API_BASE @ ''/'' @ event_id)))"

section \<open>The root orchestrator\<close>

record Creation =
  id' :: string
  name :: string
  html :: string
  originalImage :: "string option"
  timestamp :: js_date
  identifications :: "IdentificationResult list option"

text \<open>
  The state of the \<open>App\<close> component. The \<open>identifications\<close> of the application state are
  written \<open>identifications'\<close>, apart from the field of a \<open>Creation\<close>.
\<close>

record app_state =
  activeCreation :: "Creation option"
  isGenerating :: bool
  history :: "Creation list"
  hasApiKey :: "bool option"
  identifications' :: "IdentificationResult list"

text \<open>\<open>fileToBase64\<close>: the reader's data URL after its first comma, or the reader's error.\<close>

definition fileToBase64 :: "env \<Rightarrow> File \<Rightarrow> js_error + string option" where
  "fileToBase64 e file =
     (case readAsDataURL e file of Inl error \<Rightarrow> Inl error | Inr r \<Rightarrow> Inr (split_comma_1 r))"

definition GENERIC_ALERT :: string where
  "GENERIC_ALERT = ''An unexpected error occurred. Please try again or check your connection.''"

text \<open>
  A handler returns the new state together with the alerts it has shown. Logging to the
  console is left out.
\<close>

definition handleError :: "js_error \<Rightarrow> app_state \<Rightarrow> app_state \<times> string list" where
  "handleError error s =
     (if message error = Some ''KEY_RESET_REQUIRED''
      then (s\<lparr>hasApiKey := Some False, isGenerating := False\<rparr>, [])
      else (s\<lparr>isGenerating := False\<rparr>, [GENERIC_ALERT]))"

definition detection_line :: "IdentificationResult \<Rightarrow> string" where
  "detection_line d = ''- '' @ label d @ '' ('' @ type d @ ''): '' @ description d"

fun join_lines :: "string list \<Rightarrow> string" where
  "join_lines [] = []"
| "join_lines [x] = x"
| "join_lines (x # y # ys) = x @ [LF] @ join_lines (y # ys)"

definition detectionContext_of :: "IdentificationResult list \<Rightarrow> string option" where
  "detectionContext_of detections =
     (if length detections > 0 then Some (join_lines (map detection_line detections)) else None)"

definition newCreation ::
  "env \<Rightarrow> string \<Rightarrow> File option \<Rightarrow> string option \<Rightarrow> string option
     \<Rightarrow> IdentificationResult list \<Rightarrow> string \<Rightarrow> Creation" where
  "newCreation e promptText file imageBase64 mimeType detections h =
     \<lparr>id' = randomUUID e,
      name = (case file of
                Some f \<Rightarrow> file_name f
              | None \<Rightarrow> if promptText \<noteq> [] then take 30 promptText else ''New Creation''),
      html = h,
      originalImage =
        (if truthy imageBase64 \<and> truthy mimeType
         then Some (''data:'' @ or_else mimeType [] @ '';base64,'' @ or_else imageBase64 [])
         else None),
      timestamp = Date (now e),
      identifications = (if length detections > 0 then Some detections else None)\<rparr>"

text \<open>
  Step 1 of \<open>handleGenerate\<close>, run when a file is attached: the base64 text, the mime type,
  the detections, and the state after \<open>setIdentifications\<close>; or the error thrown, with the
  state at that point.
\<close>

definition scan_file ::
  "env \<Rightarrow> app_state \<Rightarrow> File option
     \<Rightarrow> js_error \<times> app_state
        + string option \<times> string option \<times> IdentificationResult list \<times> app_state" where
  "scan_file e s file =
     (case file of
        None \<Rightarrow> Inr (None, None, [], s)
      | Some f \<Rightarrow>
          (case fileToBase64 e f of
             Inl error \<Rightarrow> Inl (error, s)
           | Inr imageBase64 \<Rightarrow>
               (let mimeType = toLowerCase (file_type f)
                in case identifyImage e imageBase64 mimeType of
                     Inl error \<Rightarrow> Inl (error, s)
                   | Inr detections \<Rightarrow>
                       Inr (imageBase64, Some mimeType, detections,
                            s\<lparr>identifications' := detections\<rparr>))))"

definition handleGenerate ::
  "env \<Rightarrow> app_state \<Rightarrow> string \<Rightarrow> File option \<Rightarrow> app_state \<times> string list" where
  "handleGenerate e s0 promptText file =
     (let s1 = s0\<lparr>isGenerating := True, activeCreation := None, identifications' := []\<rparr>
      in case scan_file e s1 file of
           Inl (error, s) \<Rightarrow> handleError error s
         | Inr (imageBase64, mimeType, detections, s2) \<Rightarrow>
             (case bringToLife e promptText imageBase64 mimeType (detectionContext_of detections) of
                Inl error \<Rightarrow> handleError error s2
              | Inr h \<Rightarrow>
                  if h \<noteq> []
                  then (let c = newCreation e promptText file imageBase64 mimeType detections h
                        in (s2\<lparr>activeCreation := Some c, history := c # history s2,
                                isGenerating := False\<rparr>, []))
                  else (s2, [])))"

definition flux_html :: "string \<Rightarrow> string \<Rightarrow> string" where
  \<open>flux_html imageDataUrl prompt =
     ''<!DOCTYPE html><html><head><script src="https://cdn.tailwindcss.com"></script></head><body class="bg-zinc-950 flex flex-col items-center justify-center min-h-screen p-8 text-white font-sans"><div class="max-w-2xl w-full bg-zinc-900 rounded-3xl overflow-hidden shadow-2xl border border-zinc-800 animate-in fade-in zoom-in-95 duration-1000"><img src="''
     @ imageDataUrl
     @ ''" class="w-full aspect-square object-cover" /><div class="p-8 text-center"><h1 class="text-2xl font-bold mb-4">Eburon-FLUX Engine</h1><p class="text-zinc-400 mb-6 font-light italic">"''
     @ prompt
     @ ''"</p><button onclick="window.print()" class="bg-white text-black px-8 py-3 rounded-full font-bold hover:bg-zinc-200 transition-all hover:scale-105 active:scale-95 shadow-lg">Download Artifact</button></div></div></body></html>''\<close>

definition fluxCreation :: "env \<Rightarrow> string \<Rightarrow> string \<Rightarrow> Creation" where
  "fluxCreation e prompt imageDataUrl =
     \<lparr>id' = randomUUID e,
      name = ''FLUX: '' @ take 20 prompt @ ''...'',
      html = flux_html imageDataUrl prompt,
      originalImage = Some imageDataUrl,
      timestamp = Date (now e),
      identifications = None\<rparr>"

definition handleGenerateImage :: "env \<Rightarrow> app_state \<Rightarrow> string \<Rightarrow> app_state \<times> string list" where
  "handleGenerateImage e s0 prompt =
     (let s1 = s0\<lparr>isGenerating := True, activeCreation := None\<rparr>
      in case generateFluxImage e prompt of
           Inl error \<Rightarrow> handleError error s1
         | Inr imageDataUrl \<Rightarrow>
             (let c = fluxCreation e prompt imageDataUrl
              in (s1\<lparr>activeCreation := Some c, history := c # history s1,
                      isGenerating := False\<rparr>, [])))"

text \<open>
  The gated view: the key is marked unavailable, the generation flag is cleared, and no
  alert was shown.
\<close>

definition gated :: "app_state \<times> string list \<Rightarrow> bool" where
  "gated r = (hasApiKey (fst r) = Some False \<and> \<not> isGenerating (fst r) \<and> snd r = [])"

section \<open>Persistence, import and export\<close>

text \<open>
  The value of a \<open>timestamp\<close> property in JSON, as far as \<open>new Date\<close> and \<open>||\<close> tell
  values apart: absent, \<open>null\<close>, a number, the empty string, or a non-empty string, which
  is given by the date that \<open>Date.parse\<close> reads from it (the invalid date when it reads
  none). The string that \<open>toISOString\<close> writes for a time value reads back as that time
  value.
\<close>

datatype json_timestamp = TsAbsent | TsNull | TsNumber int | TsEmptyString | TsString js_date

text \<open>\<open>Date.prototype.toJSON\<close>: the ISO string of a valid date, \<open>null\<close> for the invalid date.\<close>

definition Date_toJSON :: "js_date \<Rightarrow> json_timestamp" where
  "Date_toJSON d = (case d of Date t \<Rightarrow> TsString (Date t) | InvalidDate \<Rightarrow> TsNull)"

text \<open>\<open>new Date(v)\<close>; a number beyond 8.64e15 milliseconds gives the invalid date.\<close>

definition new_Date :: "json_timestamp \<Rightarrow> js_date" where
  "new_Date v =
     (case v of
        TsAbsent \<Rightarrow> InvalidDate
      | TsNull \<Rightarrow> Date 0
      | TsNumber n \<Rightarrow> if \<bar>n\<bar> \<le> 8640000000000000 then Date n else InvalidDate
      | TsEmptyString \<Rightarrow> InvalidDate
      | TsString d \<Rightarrow> d)"

definition ts_truthy :: "json_timestamp \<Rightarrow> bool" where
  "ts_truthy v =
     (case v of
        TsAbsent \<Rightarrow> False
      | TsNull \<Rightarrow> False
      | TsNumber n \<Rightarrow> n \<noteq> 0
      | TsEmptyString \<Rightarrow> False
      | TsString d \<Rightarrow> True)"

text \<open>
  A JSON object with the properties of a \<open>Creation\<close>. An absent \<open>id\<close> is read as the
  empty string: the code tests the property for truthiness and compares it with truthy
  identifiers only. A property whose value is \<open>undefined\<close> is not written.
\<close>

record json_creation =
  json_id :: string
  json_name :: string
  json_html :: string
  json_originalImage :: "string option"
  json_timestamp :: json_timestamp
  json_identifications :: "IdentificationResult list option"

text \<open>\<open>JSON.stringify\<close> of a \<open>Creation\<close>, as the JSON value that \<open>JSON.parse\<close> reads back.\<close>

definition stringify_creation :: "Creation \<Rightarrow> json_creation" where
  "stringify_creation c =
     \<lparr>json_id = id' c, json_name = name c, json_html = html c,
      json_originalImage = originalImage c,
      json_timestamp = Date_toJSON (timestamp c),
      json_identifications = identifications c\<rparr>"

text \<open>
  The value under the key \<open>gemini_app_history\<close>: a text on which the \<open>try\<close> block of
  \<open>initHistory\<close> throws, or the text of an array of objects.
\<close>

datatype stored = Corrupt | Saved "json_creation list"

text \<open>
  The effect that runs after every change of the history; \<open>setItem\<close> may throw for lack
  of room, which is swallowed.
\<close>

definition persist :: "bool \<Rightarrow> Creation list \<Rightarrow> stored option \<Rightarrow> stored option" where
  "persist room h storage =
     (if length h > 0 \<and> room then Some (Saved (map stringify_creation h)) else storage)"

text \<open>\<open>{...item, timestamp: new Date(item.timestamp)}\<close>.\<close>

definition rehydrate :: "json_creation \<Rightarrow> Creation" where
  "rehydrate item =
     \<lparr>id' = json_id item, name = json_name item, html = json_html item,
      originalImage = json_originalImage item,
      timestamp = new_Date (json_timestamp item),
      identifications = json_identifications item\<rparr>"

definition loadedHistory :: "stored option \<Rightarrow> Creation list" where
  "loadedHistory saved =
     (case saved of
        None \<Rightarrow> []
      | Some Corrupt \<Rightarrow> []
      | Some (Saved parsed) \<Rightarrow> map rehydrate parsed)"

text \<open>
  \<open>initHistory\<close>; the examples are what the second \<open>try\<close> block has fetched, \<open>None\<close> when
  it threw.
\<close>

definition initHistory :: "stored option \<Rightarrow> Creation list option \<Rightarrow> app_state \<Rightarrow> app_state" where
  "initHistory saved examples s =
     (if length (loadedHistory saved) > 0 then s\<lparr>history := loadedHistory saved\<rparr>
      else (case examples of None \<Rightarrow> s | Some validExamples \<Rightarrow> s\<lparr>history := validExamples\<rparr>))"

text \<open>
  The text of an imported file: one that \<open>JSON.parse\<close> rejects, the text of \<open>null\<close> (reading
  a property of it throws), or the text of an object.
\<close>

datatype import_file = Malformed | JsonNull | JsonObject json_creation

definition imported_creation :: "env \<Rightarrow> json_creation \<Rightarrow> Creation" where
  "imported_creation e parsed =
     \<lparr>id' = (if json_id parsed \<noteq> [] then json_id parsed else randomUUID e),
      name = json_name parsed, html = json_html parsed,
      originalImage = json_originalImage parsed,
      timestamp = new_Date (if ts_truthy (json_timestamp parsed) then json_timestamp parsed
                            else TsNumber (now e)),
      identifications = json_identifications parsed\<rparr>"

definition importFile :: "env \<Rightarrow> app_state \<Rightarrow> import_file option \<Rightarrow> app_state" where
  "importFile e s file =
     (case file of
        None \<Rightarrow> s
      | Some Malformed \<Rightarrow> s
      | Some JsonNull \<Rightarrow> s
      | Some (JsonObject parsed) \<Rightarrow>
          (let imported = imported_creation e parsed
           in s\<lparr>history := (if list_ex (\<lambda>c. id' c = id' imported) (history s) then history s
                             else imported # history s),
                 activeCreation := Some imported\<rparr>))"

text \<open>\<open>name.replace(/[^a-z0-9]/gi, '_').toLowerCase()\<close> and the suffix of the download.\<close>

definition is_alnum :: "char \<Rightarrow> bool" where
  "is_alnum c =
     (let n = (of_char c :: nat)
      in (48 \<le> n \<and> n \<le> 57) \<or> (65 \<le> n \<and> n \<le> 90) \<or> (97 \<le> n \<and> n \<le> 122))"

definition download_name :: "string \<Rightarrow> string" where
  "download_name n = toLowerCase (map (\<lambda>c. if is_alnum c then c else CHR ''_'') n) @ ''_artifact.json''"

text \<open>\<open>handleExport\<close>: the name and the content of the downloaded file, if there is a creation.\<close>

definition handleExport :: "Creation option \<Rightarrow> (string \<times> import_file) option" where
  "handleExport creation =
     (case creation of
        None \<Rightarrow> None
      | Some c \<Rightarrow> Some (download_name (name c), JsonObject (stringify_creation c)))"

section \<open>The input component\<close>

text \<open>The state of \<open>InputArea\<close>; its \<open>text\<close> and \<open>file\<close> are written \<open>text'\<close> and \<open>file'\<close>.\<close>

record input_state =
  text' :: string
  interimText :: string
  file' :: "File option"
  isRecording :: bool
  isMenuOpen :: bool
  finalTranscriptRef :: string

definition combinedText :: "input_state \<Rightarrow> string" where
  "combinedText s = trim (text' s @ (if interimText s \<noteq> [] then '' '' @ interimText s else []))"

text \<open>
  \<open>handleSubmit\<close> under the props \<open>isGenerating\<close> and \<open>disabled\<close>: the new state, and the
  arguments of \<open>onGenerate\<close> when it is called.
\<close>

definition handleSubmit ::
  "bool \<Rightarrow> bool \<Rightarrow> input_state \<Rightarrow> input_state \<times> (string \<times> File option) option" where
  "handleSubmit generating disabled s =
     (if (combinedText s \<noteq> [] \<or> file' s \<noteq> None) \<and> \<not> generating \<and> \<not> disabled
      then (s\<lparr>text' := [], interimText := [], finalTranscriptRef := [], file' := None\<rparr>,
            Some (combinedText s, file' s))
      else (s, None))"

section \<open>Concrete inputs\<close>

definition quota_error :: js_error where
  "quota_error = \<lparr>message = Some ''You exceeded your current quota'', status = None, code = None\<rparr>"

definition network_error :: js_error where
  "network_error = Error ''Failed to fetch''"

text \<open>The \<open>Event\<close> that an event source passes to \<open>onerror\<close>: it has none of the three properties.\<close>

definition stream_event_error :: js_error where
  "stream_event_error = \<lparr>message = None, status = None, code = None\<rparr>"

text \<open>
  An environment around a given hosted model: the reader returns a small PNG data URL, the
  image endpoint accepts the job and its stream stays silent.
\<close>

definition base_env :: "(gen_request \<Rightarrow> js_error + gen_response) \<Rightarrow> env" where
  "base_env g =
     \<lparr>generateContent = g,
      JSON_parse = (\<lambda>t. Inl (Error ''Unexpected token'')),
      readAsDataURL = (\<lambda>f. Inr ''data:image/png;base64,QUJD''),
      flux_post = (\<lambda>p. PostOk ''ev1''),
      flux_events = (\<lambda>u. []),
      randomUUID = ''uuid-1'',
      now = 1000\<rparr>"

definition text_response :: "string \<Rightarrow> gen_response" where
  "text_response t = \<lparr>response_text = Some t, candidate_parts = None\<rparr>"

definition image_response :: gen_response where
  "image_response =
     \<lparr>response_text = None, candidate_parts = Some [InlineData (Some ''QUJD'') ''image/png'']\<rparr>"

text \<open>The image endpoint accepts the job; then its stream errors, or stays silent.\<close>

definition stream_error_env :: env where
  "stream_error_env =
     (base_env (\<lambda>r. Inr image_response))\<lparr>flux_events := (\<lambda>u. [StreamError stream_event_error])\<rparr>"

definition timeout_env :: env where
  "timeout_env = base_env (\<lambda>r. Inr image_response)"

definition post_fails :: "env \<Rightarrow> env" where
  "post_fails e = e\<lparr>flux_post := (\<lambda>p. HttpNotOk)\<rparr>"

text \<open>Outputs of the model: fenced with a final line break, and fenced after a space.\<close>

definition fenced_output :: string where
  "fenced_output = FENCE @ ''html'' @ [LF] @ ''<p>hi</p>'' @ [LF] @ FENCE @ [LF]"

definition indented_output :: string where
  "indented_output = '' '' @ FENCE @ ''html'' @ [LF] @ ''<p>hi</p>''"

definition scan_fails_then_quota :: "gen_request \<Rightarrow> js_error + gen_response" where
  "scan_fails_then_quota r =
     (if config r = IdentificationConfig then Inr (text_response ''[]'') else Inl quota_error)"

definition scan_fails_softly :: "gen_request \<Rightarrow> js_error + gen_response" where
  "scan_fails_softly r =
     (if config r = IdentificationConfig then Inl network_error
      else Inr (text_response ''<p>hi</p>''))"

definition button_detection :: IdentificationResult where
  "button_detection = \<lparr>label = ''button'', confidence = 0.97, description = ''primary action'',
                        type = ''ui_component''\<rparr>"

text \<open>
  An environment in which everything succeeds: one detection, a short artifact, and a
  stream that completes with the URL of an image after two other messages.
\<close>

definition vision_env :: env where
  "vision_env =
     (base_env (\<lambda>r. Inr (text_response
                  (if config r = IdentificationConfig then ''[{}]'' else ''<p>hi</p>''))))
       \<lparr>JSON_parse := (\<lambda>t. Inr [button_detection]),
        flux_events := (\<lambda>u. [Message Unparseable, Message (Payload ''heartbeat'' False None),
                               Message (Payload ''process_completed'' True
                                          (Some (OutObject (Some ''https://hf.space/file=img.webp''))))])\<rparr>"

definition png_file :: File where
  "png_file = \<lparr>file_name = ''sketch.png'', file_type = ''image/PNG''\<rparr>"

definition idle_state :: app_state where
  "idle_state = \<lparr>activeCreation = None, isGenerating = False, history = [],
                 hasApiKey = Some True, identifications' = []\<rparr>"

definition earlier_creation :: Creation where
  "earlier_creation = \<lparr>id' = ''uuid-0'', name = ''chess'', html = ''<p>chess</p>'',
                        originalImage = None, timestamp = Date 500, identifications = None\<rparr>"

definition later_creation :: Creation where
  "later_creation = \<lparr>id' = ''uuid-1'', name = ''a clock'', html = ''<p>hi</p>'',
                      originalImage = Some ''data:image/png;base64,QUJD'', timestamp = Date 1000,
                      identifications = Some [button_detection]\<rparr>"

definition busy_state :: app_state where
  "busy_state = idle_state\<lparr>history := [earlier_creation]\<rparr>"

definition full_state :: app_state where
  "full_state = idle_state\<lparr>history := [later_creation, earlier_creation]\<rparr>"

text \<open>A file to import whose timestamp is a text that \<open>Date.parse\<close> does not read.\<close>

definition undated_file :: json_creation where
  "undated_file = \<lparr>json_id = ''c-7'', json_name = ''clock'', json_html = ''<p>hi</p>'',
                    json_originalImage = None, json_timestamp = TsString InvalidDate,
                    json_identifications = None\<rparr>"

definition undated_history :: "Creation list" where
  "undated_history = history (importFile vision_env idle_state (Some (JsonObject undated_file)))"

text \<open>A file to import that carries neither an identifier nor a timestamp.\<close>

definition anonymous_file :: json_creation where
  "anonymous_file = \<lparr>json_id = [], json_name = ''maze'', json_html = ''<p>maze</p>'',
                      json_originalImage = None, json_timestamp = TsAbsent,
                      json_identifications = None\<rparr>"

definition typed_input :: input_state where
  "typed_input = \<lparr>text' = ''  a clock '', interimText = ''with hands'', file' = None,
                  isRecording = True, isMenuOpen = False, finalTranscriptRef = ''  a clock ''\<rparr>"

definition blank_input :: input_state where
  "blank_input = \<lparr>text' = ''  '', interimText = [], file' = None,
                  isRecording = False, isMenuOpen = False, finalTranscriptRef = ''  ''\<rparr>"

section \<open>Error classification\<close>

lemma includes_str_iff: "includes_str s sub \<longleftrightarrow> (\<exists>p q. s = p @ sub @ q)"
  by (simp add: includes_str_def sublist_def)

lemma isQuotaOrAuthError_iff:
  "isQuotaOrAuthError error \<longleftrightarrow>
     (\<exists>m p q. message error = Some m
         \<and> (m = p @ ''Requested entity was not found'' @ q
             \<or> m = p @ ''quota'' @ q \<or> m = p @ ''RESOURCE_EXHAUSTED'' @ q))
     \<or> status error = Some ''RESOURCE_EXHAUSTED''
     \<or> code error = Some 429"
  unfolding isQuotaOrAuthError_def Let_def includes_str_iff or_else_def
  by (cases "message error"; cases "status error"; cases "code error") (auto split: if_splits)

lemma quota_error_classified: "isQuotaOrAuthError quota_error"
  by code_simp

lemma network_error_unclassified: "\<not> isQuotaOrAuthError network_error"
  by code_simp

lemma KEY_RESET_REQUIRED_message: "message KEY_RESET_REQUIRED = Some ''KEY_RESET_REQUIRED''"
  by (simp add: KEY_RESET_REQUIRED_def Error_def)

section \<open>Identification\<close>

text \<open>
  C4. When the request of \<open>identifyImage\<close> fails (or the text of its response does not
  parse), the call raises the key reset condition if the error is classified as an
  authorization or quota error, and returns the empty list for every other error. An
  error is so classified exactly when its message contains one of the three known
  substrings, or its status is \<open>RESOURCE_EXHAUSTED\<close>, or its code is 429.
\<close>

theorem identifyImage_failure:
  assumes "generateContent e (identify_request fileBase64 mimeType) = Inl error
           \<or> (\<exists>response. generateContent e (identify_request fileBase64 mimeType) = Inr response
                 \<and> parse_detections e (response_text response) = Inl error)"
  shows "(isQuotaOrAuthError error \<longrightarrow> identifyImage e fileBase64 mimeType = Inl KEY_RESET_REQUIRED)
       \<and> (\<not> isQuotaOrAuthError error \<longrightarrow> identifyImage e fileBase64 mimeType = Inr [])
       \<and> (isQuotaOrAuthError error \<longleftrightarrow>
            (\<exists>m p q. message error = Some m
                \<and> (m = p @ ''Requested entity was not found'' @ q
                    \<or> m = p @ ''quota'' @ q \<or> m = p @ ''RESOURCE_EXHAUSTED'' @ q))
            \<or> status error = Some ''RESOURCE_EXHAUSTED''
            \<or> code error = Some 429)"
proof -
  have "identifyImage e fileBase64 mimeType
        = (if isQuotaOrAuthError error then Inl KEY_RESET_REQUIRED else Inr [])"
    using assms by (auto simp: identifyImage_def)
  then show ?thesis
    using isQuotaOrAuthError_iff [of error] by simp
qed

theorem identifyImage_failure_witness:
  "identifyImage (base_env (\<lambda>r. Inl quota_error)) (Some ''QUJD'') ''image/png''
     = Inl KEY_RESET_REQUIRED
   \<and> identifyImage (base_env (\<lambda>r. Inl network_error)) (Some ''QUJD'') ''image/png'' = Inr []"
proof -
  have a: "generateContent (base_env (\<lambda>r. Inl quota_error))
             (identify_request (Some ''QUJD'') ''image/png'') = Inl quota_error"
    by (simp add: base_env_def)
  have b: "generateContent (base_env (\<lambda>r. Inl network_error))
             (identify_request (Some ''QUJD'') ''image/png'') = Inl network_error"
    by (simp add: base_env_def)
  show ?thesis
    using identifyImage_failure [of "base_env (\<lambda>r. Inl quota_error)" "Some ''QUJD''"
                                    "''image/png''" quota_error]
          identifyImage_failure [of "base_env (\<lambda>r. Inl network_error)" "Some ''QUJD''"
                                    "''image/png''" network_error]
          a b quota_error_classified network_error_unclassified
    by simp
qed

section \<open>Submission from the input component\<close>

text \<open>
  C10. On submit, the generation callback is invoked exactly when the trimmed combination
  of the committed text and the interim transcript is non-empty or a file is attached,
  and no generation is in flight and the component is not disabled. When it is invoked,
  it receives the combined text and the file, and the text, the interim transcript, the
  final transcript buffer and the attached file are cleared. Otherwise the state of the
  input is unchanged.
\<close>

theorem handleSubmit_exact:
  "(snd (handleSubmit generating disabled s) \<noteq> None
      \<longleftrightarrow> (trim (text' s @ (if interimText s \<noteq> [] then '' '' @ interimText s else [])) \<noteq> []
             \<or> file' s \<noteq> None) \<and> \<not> generating \<and> \<not> disabled)
   \<and> (snd (handleSubmit generating disabled s) \<noteq> None \<longrightarrow>
        snd (handleSubmit generating disabled s)
          = Some (trim (text' s @ (if interimText s \<noteq> [] then '' '' @ interimText s else [])),
                  file' s)
        \<and> fst (handleSubmit generating disabled s)
          = s\<lparr>text' := [], interimText := [], finalTranscriptRef := [], file' := None\<rparr>)
   \<and> (snd (handleSubmit generating disabled s) = None \<longrightarrow>
        fst (handleSubmit generating disabled s) = s)"
  by (simp add: handleSubmit_def combinedText_def)

theorem handleSubmit_exact_witness:
  "handleSubmit False False typed_input
     = (\<lparr>text' = [], interimText = [], file' = None, isRecording = True, isMenuOpen = False,
         finalTranscriptRef = []\<rparr>, Some (''a clock  with hands'', None))
   \<and> handleSubmit True False typed_input = (typed_input, None)
   \<and> handleSubmit False False blank_input = (blank_input, None)"
proof -
  have t: "trim (text' typed_input
                 @ (if interimText typed_input \<noteq> [] then '' '' @ interimText typed_input else []))
           = ''a clock  with hands''"
    by (simp add: typed_input_def trim_def is_space_def)
  have b: "trim (text' blank_input
                 @ (if interimText blank_input \<noteq> [] then '' '' @ interimText blank_input else []))
           = []"
    by (simp add: blank_input_def trim_def is_space_def)
  have f: "file' typed_input = None" "file' blank_input = None"
    by (simp_all add: typed_input_def blank_input_def)
  have 1: "handleSubmit False False typed_input
     = (\<lparr>text' = [], interimText = [], file' = None, isRecording = True, isMenuOpen = False,
         finalTranscriptRef = []\<rparr>, Some (''a clock  with hands'', None))"
    using handleSubmit_exact [of False False typed_input] t f
    by (auto simp: prod_eq_iff typed_input_def)
  have 2: "handleSubmit True False typed_input = (typed_input, None)"
    using handleSubmit_exact [of True False typed_input] by (auto simp: prod_eq_iff)
  have 3: "handleSubmit False False blank_input = (blank_input, None)"
    using handleSubmit_exact [of False False blank_input] b f by (auto simp: prod_eq_iff)
  show ?thesis using 1 2 3 by simp
qed

section \<open>Facts about the services and the handlers\<close>

lemma handleError_key_reset:
  "handleError KEY_RESET_REQUIRED s = (s\<lparr>hasApiKey := Some False, isGenerating := False\<rparr>, [])"
  by (simp add: handleError_def KEY_RESET_REQUIRED_message)

lemma identifyImage_request_fails:
  "generateContent e (identify_request fileBase64 mimeType) = Inl error \<Longrightarrow>
   identifyImage e fileBase64 mimeType
     = (if isQuotaOrAuthError error then Inl KEY_RESET_REQUIRED else Inr [])"
  by (simp add: identifyImage_def)

lemma bringToLife_request_fails:
  "generateContent e (artifact_request prompt fileBase64 mimeType detectionContext) = Inl error \<Longrightarrow>
   bringToLife e prompt fileBase64 mimeType detectionContext
     = (if isQuotaOrAuthError error then Inl KEY_RESET_REQUIRED else Inl error)"
  by (simp add: bringToLife_def rethrow_classified_def)

lemma generateAIImage_request_fails:
  "generateContent e (image_request prompt) = Inl error \<Longrightarrow>
   generateAIImage e prompt = (if isQuotaOrAuthError error then Inl KEY_RESET_REQUIRED else Inl error)"
  by (simp add: generateAIImage_def rethrow_classified_def)

lemma generateFluxImage_post_failure:
  "(\<forall>event_id. flux_post e prompt \<noteq> PostOk event_id) \<Longrightarrow>
   generateFluxImage e prompt = generateAIImage e prompt"
  by (cases "flux_post e prompt") (simp_all add: generateFluxImage_def)

lemma handleGenerate_identify_raises:
  "fileToBase64 e f = Inr imageBase64 \<Longrightarrow>
   identifyImage e imageBase64 (toLowerCase (file_type f)) = Inl error \<Longrightarrow>
   handleGenerate e s promptText (Some f)
     = handleError error (s\<lparr>isGenerating := True, activeCreation := None, identifications' := []\<rparr>)"
  by (simp add: handleGenerate_def scan_file_def)

lemma handleGenerate_no_file:
  "handleGenerate e s promptText None
     = (case bringToLife e promptText None None None of
          Inl error \<Rightarrow> handleError error (s\<lparr>isGenerating := True, activeCreation := None, identifications' := []\<rparr>)
        | Inr h \<Rightarrow>
            if h \<noteq> []
            then (s\<lparr>isGenerating := False,
                    activeCreation := Some (newCreation e promptText None None None [] h),
                    identifications' := [],
                    history := newCreation e promptText None None None [] h # history s\<rparr>, [])
            else (s\<lparr>isGenerating := True, activeCreation := None, identifications' := []\<rparr>, []))"
  by (simp add: handleGenerate_def scan_file_def detectionContext_of_def Let_def split: sum.splits)

lemma handleGenerate_with_file:
  "fileToBase64 e f = Inr imageBase64 \<Longrightarrow>
   identifyImage e imageBase64 (toLowerCase (file_type f)) = Inr detections \<Longrightarrow>
   handleGenerate e s promptText (Some f)
     = (case bringToLife e promptText imageBase64 (Some (toLowerCase (file_type f)))
               (detectionContext_of detections) of
          Inl error \<Rightarrow> handleError error (s\<lparr>isGenerating := True, activeCreation := None, identifications' := detections\<rparr>)
        | Inr h \<Rightarrow>
            if h \<noteq> []
            then (s\<lparr>isGenerating := False,
                    activeCreation := Some (newCreation e promptText (Some f) imageBase64
                                              (Some (toLowerCase (file_type f))) detections h),
                    identifications' := detections,
                    history := newCreation e promptText (Some f) imageBase64
                                 (Some (toLowerCase (file_type f))) detections h # history s\<rparr>, [])
            else (s\<lparr>isGenerating := True, activeCreation := None, identifications' := detections\<rparr>, []))"
  by (simp add: handleGenerate_def scan_file_def Let_def split: sum.splits)

lemma handleGenerateImage_cases:
  "handleGenerateImage e s prompt
     = (case generateFluxImage e prompt of
          Inl error \<Rightarrow> handleError error (s\<lparr>isGenerating := True, activeCreation := None\<rparr>)
        | Inr imageDataUrl \<Rightarrow>
            (s\<lparr>isGenerating := False, activeCreation := Some (fluxCreation e prompt imageDataUrl),
               history := fluxCreation e prompt imageDataUrl # history s\<rparr>, []))"
  by (simp add: handleGenerateImage_def Let_def split: sum.splits)

text \<open>
  Where the generation flag ends: every run of \<open>handleError\<close> and of \<open>handleGenerateImage\<close>
  clears it, and \<open>handleGenerate\<close> leaves it set exactly when the artifact is the empty text.
\<close>

lemma handleError_clears_flag: "\<not> isGenerating (fst (handleError error s))"
  by (simp add: handleError_def)

lemma handleGenerateImage_clears_flag: "\<not> isGenerating (fst (handleGenerateImage e s prompt))"
  by (simp add: handleGenerateImage_cases handleError_clears_flag split: sum.splits)

lemma scan_file_keeps_flag:
  "scan_file e s file = Inr (imageBase64, mimeType, detections, s2) \<Longrightarrow>
   isGenerating s2 = isGenerating s"
  by (auto simp: scan_file_def Let_def split: option.splits sum.splits)

lemma handleGenerate_flag:
  "isGenerating (fst (handleGenerate e s promptText file))
     \<longleftrightarrow> (\<exists>imageBase64 mimeType detections s2.
            scan_file e (s\<lparr>isGenerating := True, activeCreation := None, identifications' := []\<rparr>) file
              = Inr (imageBase64, mimeType, detections, s2)
            \<and> bringToLife e promptText imageBase64 mimeType (detectionContext_of detections) = Inr [])"
  by (auto simp: handleGenerate_def Let_def handleError_clears_flag
           dest: scan_file_keeps_flag split: sum.splits prod.splits)

lemma png_base64: "fileToBase64 (base_env g) png_file = Inr (Some ''QUJD'')"
  by (simp add: fileToBase64_def base_env_def split_comma_1_def)

lemma png_type: "toLowerCase (file_type png_file) = ''image/png''"
  by code_simp

lemma vision_artifact: "bringToLife vision_env prompt fileBase64 mimeType ctx = Inr ''<p>hi</p>''"
proof -
  have "clean_output (Some ''<p>hi</p>'') = ''<p>hi</p>''" by code_simp
  then show ?thesis
    by (simp add: bringToLife_def vision_env_def base_env_def artifact_request_def text_response_def)
qed

lemma vision_scan: "identifyImage vision_env fileBase64 mimeType = Inr [button_detection]"
  by (simp add: identifyImage_def vision_env_def base_env_def identify_request_def
        text_response_def parse_detections_def or_else_def)

lemma vision_base64: "fileToBase64 vision_env png_file = Inr (Some ''QUJD'')"
  by (simp add: fileToBase64_def vision_env_def base_env_def split_comma_1_def)

lemma vision_image: "generateFluxImage vision_env ''a clock'' = Inr ''https://hf.space/file=img.webp''"
  by (simp add: generateFluxImage_def vision_env_def base_env_def truthy_def or_else_def)

lemma rehydrate_stringify:
  "rehydrate (stringify_creation c)
     = c\<lparr>timestamp := (case timestamp c of Date t \<Rightarrow> Date t | InvalidDate \<Rightarrow> Date 0)\<rparr>"
  by (cases "timestamp c") (simp_all add: rehydrate_def stringify_creation_def Date_toJSON_def new_Date_def)

lemma rehydrate_stringify_valid:
  "timestamp c \<noteq> InvalidDate \<Longrightarrow> rehydrate (stringify_creation c) = c"
  by (cases "timestamp c") (simp_all add: rehydrate_stringify)

lemma loaded_persisted:
  "h \<noteq> [] \<Longrightarrow> loadedHistory (persist True h storage) = map (\<lambda>c. rehydrate (stringify_creation c)) h"
  by (simp add: loadedHistory_def persist_def)

section \<open>Image generation and its fallback\<close>

text \<open>
  C1. The claim is that every failure of the primary path of \<open>generateFluxImage\<close> leads to
  \<open>generateAIImage\<close>, whose result the caller receives. When the submission is accepted and
  the stream then errors, or stays silent until the timer fires, the caller receives the
  error of the stream, or of the timer, although \<open>generateAIImage\<close> would have returned an
  image in the same environment.
\<close>

theorem generateFluxImage_stream_failure_escapes:
  "generateFluxImage stream_error_env ''a red kite'' = Inl stream_event_error
   \<and> generateAIImage stream_error_env ''a red kite'' = Inr ''data:image/png;base64,QUJD''
   \<and> generateFluxImage timeout_env ''a red kite'' = Inl TIMED_OUT
   \<and> generateAIImage timeout_env ''a red kite'' = Inr ''data:image/png;base64,QUJD''"
  by (simp add: generateFluxImage_def generateAIImage_def stream_error_env_def timeout_env_def
        base_env_def image_response_def template_value_def)

section \<open>Code fences\<close>

text \<open>
  C8. The claim is that the text returned by \<open>bringToLife\<close> never starts or ends with a code
  fence. An output whose closing fence is followed by a line break is returned with the
  closing fence, and an output whose opening fence follows a space is returned with the
  opening fence.
\<close>

theorem bringToLife_keeps_fences:
  "bringToLife (base_env (\<lambda>r. Inr (text_response fenced_output))) ''a clock'' None None None
     = Inr (''<p>hi</p>'' @ [LF] @ FENCE)
   \<and> bringToLife (base_env (\<lambda>r. Inr (text_response indented_output))) ''a clock'' None None None
     = Inr (FENCE @ ''html'' @ [LF] @ ''<p>hi</p>'')"
  by code_simp

section \<open>The generation flag\<close>

text \<open>
  C9. The claim is that the generation flag is cleared when \<open>handleGenerate\<close> completes,
  also when the model call returns an empty text. When the model answers with a lone code
  fence, \<open>bringToLife\<close> returns the empty text and \<open>handleGenerate\<close> completes with the flag
  still set, no active creation and no alert.
\<close>

theorem handleGenerate_empty_html_stays_generating:
  "bringToLife (base_env (\<lambda>r. Inr (text_response FENCE))) ''a clock'' None None None = Inr []
   \<and> handleGenerate (base_env (\<lambda>r. Inr (text_response FENCE))) idle_state ''a clock'' None
       = (idle_state\<lparr>isGenerating := True\<rparr>, [])"
  by code_simp

section \<open>The gated view\<close>

text \<open>
  C3. When the request of \<open>identifyImage\<close>, of \<open>bringToLife\<close> (without or with an attached
  file) or of \<open>generateAIImage\<close> (reached after a failed submission to the image endpoint)
  fails with an error classified as an authorization or quota error, the handler ends in
  the gated view: \<open>hasApiKey\<close> is false, the generation flag is cleared, and no generic
  alert is shown.
\<close>

theorem key_reset_gates_the_application:
  assumes "isQuotaOrAuthError error"
  shows "(fileToBase64 e f = Inr imageData
            \<and> generateContent e (identify_request imageData (toLowerCase (file_type f))) = Inl error
          \<longrightarrow> gated (handleGenerate e s promptText (Some f)))
       \<and> (generateContent e (artifact_request promptText None None None) = Inl error
          \<longrightarrow> gated (handleGenerate e s promptText None))
       \<and> (fileToBase64 e f = Inr imageData
            \<and> identifyImage e imageData (toLowerCase (file_type f)) = Inr detections
            \<and> generateContent e (artifact_request promptText imageData
                  (Some (toLowerCase (file_type f))) (detectionContext_of detections)) = Inl error
          \<longrightarrow> gated (handleGenerate e s promptText (Some f)))
       \<and> ((\<forall>event_id. flux_post e prompt \<noteq> PostOk event_id)
            \<and> generateContent e (image_request prompt) = Inl error
          \<longrightarrow> gated (handleGenerateImage e s prompt))"
proof -
  have a: "fileToBase64 e f = Inr imageData
            \<and> generateContent e (identify_request imageData (toLowerCase (file_type f))) = Inl error
          \<longrightarrow> gated (handleGenerate e s promptText (Some f))"
    using assms
    by (simp add: handleGenerate_identify_raises identifyImage_request_fails
          handleError_key_reset gated_def)
  have b: "generateContent e (artifact_request promptText None None None) = Inl error
          \<longrightarrow> gated (handleGenerate e s promptText None)"
    using assms
    by (simp add: handleGenerate_no_file bringToLife_request_fails handleError_key_reset gated_def)
  have c: "fileToBase64 e f = Inr imageData
            \<and> identifyImage e imageData (toLowerCase (file_type f)) = Inr detections
            \<and> generateContent e (artifact_request promptText imageData
                  (Some (toLowerCase (file_type f))) (detectionContext_of detections)) = Inl error
          \<longrightarrow> gated (handleGenerate e s promptText (Some f))"
    using assms
    by (simp add: handleGenerate_with_file bringToLife_request_fails handleError_key_reset gated_def)
  have d: "(\<forall>event_id. flux_post e prompt \<noteq> PostOk event_id)
            \<and> generateContent e (image_request prompt) = Inl error
          \<longrightarrow> gated (handleGenerateImage e s prompt)"
    using assms
    by (simp add: handleGenerateImage_cases generateFluxImage_post_failure
          generateAIImage_request_fails handleError_key_reset gated_def)
  show ?thesis using a b c d by blast
qed

theorem key_reset_gates_the_application_witness:
  "gated (handleGenerate (base_env (\<lambda>r. Inl quota_error)) idle_state ''a clock'' (Some png_file))
   \<and> gated (handleGenerate (base_env (\<lambda>r. Inl quota_error)) idle_state ''a clock'' None)
   \<and> gated (handleGenerate (base_env scan_fails_then_quota) idle_state ''a clock'' (Some png_file))
   \<and> gated (handleGenerateImage (post_fails (base_env (\<lambda>r. Inl quota_error))) idle_state ''a clock'')"
proof -
  have 1: "generateContent (base_env (\<lambda>r. Inl quota_error)) r = Inl quota_error" for r
    by (simp add: base_env_def)
  have 2: "identifyImage (base_env scan_fails_then_quota) (Some ''QUJD'') ''image/png'' = Inr []"
    by (simp add: identifyImage_def base_env_def scan_fails_then_quota_def identify_request_def
          parse_detections_def text_response_def or_else_def)
  have 3: "generateContent (base_env scan_fails_then_quota)
             (artifact_request ''a clock'' (Some ''QUJD'') (Some ''image/png'') (detectionContext_of []))
           = Inl quota_error"
    by (simp add: base_env_def scan_fails_then_quota_def artifact_request_def)
  have 4: "\<forall>event_id. flux_post (post_fails (base_env (\<lambda>r. Inl quota_error))) ''a clock'' \<noteq> PostOk event_id"
    by (simp add: post_fails_def base_env_def)
  have 5: "generateContent (post_fails (base_env (\<lambda>r. Inl quota_error))) r = Inl quota_error" for r
    by (simp add: base_env_def post_fails_def)
  show ?thesis
    using key_reset_gates_the_application [where error = quota_error and e = "base_env (\<lambda>r. Inl quota_error)" and f = png_file
              and imageData = "Some ''QUJD''" and promptText = "''a clock''" and s = idle_state,
            OF quota_error_classified]
          key_reset_gates_the_application [where error = quota_error and e = "base_env scan_fails_then_quota" and f = png_file
              and imageData = "Some ''QUJD''" and promptText = "''a clock''" and s = idle_state
              and detections = "[]",
            OF quota_error_classified]
          key_reset_gates_the_application [where error = quota_error and e = "post_fails (base_env (\<lambda>r. Inl quota_error))" and prompt = "''a clock''"
              and s = idle_state,
            OF quota_error_classified]
          1 2 3 4 5 png_base64 png_type
    by simp
qed

section \<open>Generation after a failed identification\<close>

text \<open>
  C5. With an attached file whose identification fails with an error that is not
  classified as an authorization or quota error, \<open>handleGenerate\<close> sends the artifact
  request without detection context, and when that request yields a non-empty artifact
  the new creation carries that artifact and no identification list.
\<close>

theorem identification_failure_does_not_block:
  assumes "fileToBase64 e f = Inr imageData"
      and "generateContent e (identify_request imageData (toLowerCase (file_type f))) = Inl error
           \<or> (\<exists>response. generateContent e (identify_request imageData (toLowerCase (file_type f)))
                              = Inr response
                 \<and> parse_detections e (response_text response) = Inl error)"
      and "\<not> isQuotaOrAuthError error"
      and "generateContent e (artifact_request promptText imageData
             (Some (toLowerCase (file_type f))) None) = Inr generated"
      and "clean_output (response_text generated) \<noteq> []"
  shows "\<exists>c. handleGenerate e s promptText (Some f)
               = (s\<lparr>isGenerating := False, activeCreation := Some c, identifications' := [],
                    history := c # history s\<rparr>, [])
             \<and> html c = clean_output (response_text generated)
             \<and> identifications c = None"
proof -
  have soft: "identifyImage e imageData (toLowerCase (file_type f)) = Inr []"
    using assms(2,3) by (auto simp: identifyImage_def)
  have gen: "bringToLife e promptText imageData (Some (toLowerCase (file_type f)))
               (detectionContext_of []) = Inr (clean_output (response_text generated))"
    using assms(4) by (simp add: bringToLife_def detectionContext_of_def)
  let ?c = "newCreation e promptText (Some f) imageData (Some (toLowerCase (file_type f))) []
              (clean_output (response_text generated))"
  have "handleGenerate e s promptText (Some f)
          = (s\<lparr>isGenerating := False, activeCreation := Some ?c, identifications' := [],
               history := ?c # history s\<rparr>, [])"
    using handleGenerate_with_file [OF assms(1) soft, of s promptText] gen assms(5) by simp
  moreover have "html ?c = clean_output (response_text generated)" "identifications ?c = None"
    by (simp_all add: newCreation_def)
  ultimately show ?thesis by blast
qed

theorem identification_failure_does_not_block_witness:
  "\<exists>c. handleGenerate (base_env scan_fails_softly) idle_state ''a clock'' (Some png_file)
          = (idle_state\<lparr>isGenerating := False, activeCreation := Some c, identifications' := [],
               history := c # history idle_state\<rparr>, [])
        \<and> html c = ''<p>hi</p>'' \<and> identifications c = None"
proof -
  have 1: "generateContent (base_env scan_fails_softly)
             (identify_request (Some ''QUJD'') (toLowerCase (file_type png_file))) = Inl network_error"
    by (simp add: base_env_def scan_fails_softly_def identify_request_def)
  have 2: "generateContent (base_env scan_fails_softly)
             (artifact_request ''a clock'' (Some ''QUJD'') (Some (toLowerCase (file_type png_file))) None)
           = Inr (text_response ''<p>hi</p>'')"
    by (simp add: base_env_def scan_fails_softly_def artifact_request_def)
  have 3: "clean_output (response_text (text_response ''<p>hi</p>'')) = ''<p>hi</p>''"
    by code_simp
  have 4: "clean_output (response_text (text_response ''<p>hi</p>'')) \<noteq> []"
    unfolding 3 by simp
  show ?thesis
    using identification_failure_does_not_block [OF png_base64 disjI1 [OF 1]
            network_error_unclassified 2 4, of idle_state]
    unfolding 3 .
qed

section \<open>Successful generation\<close>

text \<open>
  C2. When \<open>handleGenerate\<close> obtains a non-empty artifact (without a file, or with a file
  that was read and scanned), or \<open>handleGenerateImage\<close> obtains an image, the new creation,
  built with a fresh identifier, the result and the current time, is the active creation
  and the head of the history, in front of the previous history.
\<close>

theorem successful_generation_is_prepended:
  "(bringToLife e promptText None None None = Inr h \<and> h \<noteq> [] \<longrightarrow>
      activeCreation (fst (handleGenerate e s promptText None))
        = Some (newCreation e promptText None None None [] h)
      \<and> history (fst (handleGenerate e s promptText None))
        = newCreation e promptText None None None [] h # history s)
   \<and> (fileToBase64 e f = Inr imageData
        \<and> identifyImage e imageData (toLowerCase (file_type f)) = Inr detections
        \<and> bringToLife e promptText imageData (Some (toLowerCase (file_type f)))
             (detectionContext_of detections) = Inr h
        \<and> h \<noteq> [] \<longrightarrow>
      activeCreation (fst (handleGenerate e s promptText (Some f)))
        = Some (newCreation e promptText (Some f) imageData (Some (toLowerCase (file_type f)))
                  detections h)
      \<and> history (fst (handleGenerate e s promptText (Some f)))
        = newCreation e promptText (Some f) imageData (Some (toLowerCase (file_type f)))
            detections h # history s)
   \<and> (generateFluxImage e prompt = Inr imageDataUrl \<longrightarrow>
      activeCreation (fst (handleGenerateImage e s prompt))
        = Some (fluxCreation e prompt imageDataUrl)
      \<and> history (fst (handleGenerateImage e s prompt))
        = fluxCreation e prompt imageDataUrl # history s)
   \<and> id' (newCreation e promptText file imageData mimeType detections h) = randomUUID e
   \<and> html (newCreation e promptText file imageData mimeType detections h) = h
   \<and> timestamp (newCreation e promptText file imageData mimeType detections h) = Date (now e)
   \<and> id' (fluxCreation e prompt imageDataUrl) = randomUUID e
   \<and> originalImage (fluxCreation e prompt imageDataUrl) = Some imageDataUrl"
proof -
  have a: "bringToLife e promptText None None None = Inr h \<and> h \<noteq> [] \<longrightarrow>
      activeCreation (fst (handleGenerate e s promptText None))
        = Some (newCreation e promptText None None None [] h)
      \<and> history (fst (handleGenerate e s promptText None))
        = newCreation e promptText None None None [] h # history s"
    by (simp add: handleGenerate_no_file)
  have b: "fileToBase64 e f = Inr imageData
        \<and> identifyImage e imageData (toLowerCase (file_type f)) = Inr detections
        \<and> bringToLife e promptText imageData (Some (toLowerCase (file_type f)))
             (detectionContext_of detections) = Inr h
        \<and> h \<noteq> [] \<longrightarrow>
      activeCreation (fst (handleGenerate e s promptText (Some f)))
        = Some (newCreation e promptText (Some f) imageData (Some (toLowerCase (file_type f)))
                  detections h)
      \<and> history (fst (handleGenerate e s promptText (Some f)))
        = newCreation e promptText (Some f) imageData (Some (toLowerCase (file_type f)))
            detections h # history s"
    by (simp add: handleGenerate_with_file)
  have c: "generateFluxImage e prompt = Inr imageDataUrl \<longrightarrow>
      activeCreation (fst (handleGenerateImage e s prompt))
        = Some (fluxCreation e prompt imageDataUrl)
      \<and> history (fst (handleGenerateImage e s prompt))
        = fluxCreation e prompt imageDataUrl # history s"
    by (simp add: handleGenerateImage_cases)
  have d: "id' (newCreation e promptText file imageData mimeType detections h) = randomUUID e"
    "html (newCreation e promptText file imageData mimeType detections h) = h"
    "timestamp (newCreation e promptText file imageData mimeType detections h) = Date (now e)"
    "id' (fluxCreation e prompt imageDataUrl) = randomUUID e"
    "originalImage (fluxCreation e prompt imageDataUrl) = Some imageDataUrl"
    by (simp_all add: newCreation_def fluxCreation_def)
  show ?thesis using a b c d by blast
qed

theorem successful_generation_is_prepended_witness:
  "history (fst (handleGenerate vision_env busy_state ''a clock'' None))
     = [\<lparr>id' = ''uuid-1'', name = ''a clock'', html = ''<p>hi</p>'', originalImage = None,
         timestamp = Date 1000, identifications = None\<rparr>, earlier_creation]
   \<and> activeCreation (fst (handleGenerate vision_env busy_state ''a clock'' None))
     = Some \<lparr>id' = ''uuid-1'', name = ''a clock'', html = ''<p>hi</p>'', originalImage = None,
         timestamp = Date 1000, identifications = None\<rparr>
   \<and> history (fst (handleGenerate vision_env busy_state ''a clock'' (Some png_file)))
     = [\<lparr>id' = ''uuid-1'', name = ''sketch.png'', html = ''<p>hi</p>'',
         originalImage = Some ''data:image/png;base64,QUJD'',
         timestamp = Date 1000, identifications = Some [button_detection]\<rparr>, earlier_creation]
   \<and> history (fst (handleGenerateImage vision_env busy_state ''a clock''))
     = [fluxCreation vision_env ''a clock'' ''https://hf.space/file=img.webp'', earlier_creation]"
proof -
  have h: "history busy_state = [earlier_creation]"
    by (simp add: busy_state_def idle_state_def)
  have n1: "newCreation vision_env ''a clock'' None None None [] ''<p>hi</p>''
            = \<lparr>id' = ''uuid-1'', name = ''a clock'', html = ''<p>hi</p>'', originalImage = None,
         timestamp = Date 1000, identifications = None\<rparr>"
    by (simp add: newCreation_def vision_env_def base_env_def truthy_def)
  have n2: "newCreation vision_env ''a clock'' (Some png_file) (Some ''QUJD'') (Some ''image/png'')
              [button_detection] ''<p>hi</p>''
            = \<lparr>id' = ''uuid-1'', name = ''sketch.png'', html = ''<p>hi</p>'',
         originalImage = Some ''data:image/png;base64,QUJD'',
         timestamp = Date 1000, identifications = Some [button_detection]\<rparr>"
    by (simp add: newCreation_def vision_env_def base_env_def truthy_def or_else_def png_file_def)
  show ?thesis
    using successful_generation_is_prepended [where e = vision_env and s = busy_state
            and promptText = "''a clock''" and h = "''<p>hi</p>''" and f = png_file
            and imageData = "Some ''QUJD''" and detections = "[button_detection]"
            and prompt = "''a clock''" and imageDataUrl = "''https://hf.space/file=img.webp''"]
          vision_artifact vision_scan vision_base64 vision_image png_type h n1 n2
    by simp
qed

section \<open>Persisted history\<close>

text \<open>
  C6, as claimed, fails: a history that holds a record with an invalid date (here the
  history after importing a file whose timestamp does not parse) re-loads with the epoch
  as the timestamp of that record.
\<close>

theorem reload_loses_invalid_timestamp:
  "undated_history \<noteq> []
   \<and> map timestamp undated_history = [InvalidDate]
   \<and> map timestamp (loadedHistory (persist True undated_history None)) = [Date 0]"
  by (simp add: undated_history_def importFile_def imported_creation_def undated_file_def
        idle_state_def vision_env_def base_env_def ts_truthy_def new_Date_def
        loadedHistory_def persist_def rehydrate_def stringify_creation_def Date_toJSON_def Let_def)

text \<open>
  C6, amended. For every non-empty history list, writing it to the storage and loading it
  again yields a list of the same length and order in which each record keeps its
  identifier, and a record whose timestamp is a valid date is kept as it is; when all
  timestamps are valid, \<open>initHistory\<close> restores the very history.
\<close>

theorem history_round_trip:
  assumes "h \<noteq> []"
  shows "length (loadedHistory (persist True h storage)) = length h
       \<and> map id' (loadedHistory (persist True h storage)) = map id' h
       \<and> (\<forall>i < length h. timestamp (h ! i) \<noteq> InvalidDate \<longrightarrow>
             loadedHistory (persist True h storage) ! i = h ! i)
       \<and> ((\<forall>c \<in> set h. timestamp c \<noteq> InvalidDate) \<longrightarrow>
             loadedHistory (persist True h storage) = h
             \<and> history (initHistory (persist True h storage) examples s) = h)"
proof -
  have l: "loadedHistory (persist True h storage) = map (\<lambda>c. rehydrate (stringify_creation c)) h"
    using assms by (rule loaded_persisted)
  have 1: "length (loadedHistory (persist True h storage)) = length h"
    by (simp add: l)
  have 2: "map id' (loadedHistory (persist True h storage)) = map id' h"
    by (simp add: l rehydrate_stringify)
  have 3: "\<forall>i < length h. timestamp (h ! i) \<noteq> InvalidDate \<longrightarrow>
             loadedHistory (persist True h storage) ! i = h ! i"
    by (simp add: l rehydrate_stringify_valid)
  have 4: "loadedHistory (persist True h storage) = h" if "\<forall>c \<in> set h. timestamp c \<noteq> InvalidDate"
    unfolding l using that by (simp add: rehydrate_stringify_valid map_idI)
  have 5: "history (initHistory (persist True h storage) examples s) = h"
    if "\<forall>c \<in> set h. timestamp c \<noteq> InvalidDate"
    using 4 [OF that] assms by (simp add: initHistory_def)
  show ?thesis using 1 2 3 4 5 by blast
qed

theorem history_round_trip_witness:
  "loadedHistory (persist True [later_creation, earlier_creation] None)
     = [later_creation, earlier_creation]
   \<and> history (initHistory (persist True [later_creation, earlier_creation] None) None idle_state)
     = [later_creation, earlier_creation]
   \<and> map id' (loadedHistory (persist True undated_history None)) = map id' undated_history"
proof -
  have v: "\<forall>c \<in> set [later_creation, earlier_creation]. timestamp c \<noteq> InvalidDate"
    by (simp add: later_creation_def earlier_creation_def)
  have n: "[later_creation, earlier_creation] \<noteq> []" by simp
  have u: "undated_history \<noteq> []"
    by (simp add: undated_history_def importFile_def idle_state_def Let_def)
  show ?thesis
    using history_round_trip [OF n, of None None idle_state] history_round_trip [OF u, of None] v
    by blast
qed

section \<open>Import and export\<close>

text \<open>
  C7. Importing a file whose identifier occurs in the history leaves the history
  unchanged; when the identifier of the imported record does not occur, the record is
  prepended; in both cases it becomes the active creation. The identifier is that of the
  file, or a fresh one when the file has none. Export writes the whole record, and
  importing the exported file of a record with an identifier gives the record back, its
  timestamp re-hydrated: unchanged when it is a valid date.
\<close>

theorem import_without_duplicates:
  "(json_id parsed \<noteq> [] \<and> json_id parsed \<in> id' ` set (history s) \<longrightarrow>
      history (importFile e s (Some (JsonObject parsed))) = history s)
   \<and> (id' (imported_creation e parsed) \<notin> id' ` set (history s) \<longrightarrow>
      history (importFile e s (Some (JsonObject parsed))) = imported_creation e parsed # history s)
   \<and> activeCreation (importFile e s (Some (JsonObject parsed))) = Some (imported_creation e parsed)
   \<and> id' (imported_creation e parsed) = (if json_id parsed \<noteq> [] then json_id parsed else randomUUID e)
   \<and> handleExport (Some c) = Some (download_name (name c), JsonObject (stringify_creation c))
   \<and> (id' c \<noteq> [] \<longrightarrow>
        imported_creation e (stringify_creation c)
          = c\<lparr>timestamp := (case timestamp c of Date t \<Rightarrow> Date t | InvalidDate \<Rightarrow> new_Date (TsNumber (now e)))\<rparr>)
   \<and> (id' c \<noteq> [] \<and> timestamp c \<noteq> InvalidDate \<longrightarrow>
        imported_creation e (stringify_creation c) = c)"
proof -
  have ex: "list_ex (\<lambda>c. id' c = i) xs \<longleftrightarrow> i \<in> id' ` set xs" for i xs
    by (auto simp: list_ex_iff)
  have a: "json_id parsed \<noteq> [] \<and> json_id parsed \<in> id' ` set (history s) \<longrightarrow>
      history (importFile e s (Some (JsonObject parsed))) = history s"
    by (simp add: importFile_def Let_def ex imported_creation_def)
  have b: "id' (imported_creation e parsed) \<notin> id' ` set (history s) \<longrightarrow>
      history (importFile e s (Some (JsonObject parsed))) = imported_creation e parsed # history s"
    by (simp add: importFile_def Let_def ex)
  have c: "activeCreation (importFile e s (Some (JsonObject parsed))) = Some (imported_creation e parsed)"
    by (simp add: importFile_def Let_def)
  have d: "id' (imported_creation e parsed) = (if json_id parsed \<noteq> [] then json_id parsed else randomUUID e)"
    by (simp add: imported_creation_def)
  have x: "handleExport (Some c) = Some (download_name (name c), JsonObject (stringify_creation c))"
    by (simp add: handleExport_def)
  have f: "id' c \<noteq> [] \<longrightarrow>
        imported_creation e (stringify_creation c)
          = c\<lparr>timestamp := (case timestamp c of Date t \<Rightarrow> Date t | InvalidDate \<Rightarrow> new_Date (TsNumber (now e)))\<rparr>"
    by (cases "timestamp c")
       (simp_all add: imported_creation_def stringify_creation_def Date_toJSON_def ts_truthy_def new_Date_def)
  have g: "id' c \<noteq> [] \<and> timestamp c \<noteq> InvalidDate \<longrightarrow> imported_creation e (stringify_creation c) = c"
    using f by (cases "timestamp c") simp_all
  show ?thesis using a b c d x f g by blast
qed

theorem import_without_duplicates_witness:
  "history (importFile vision_env full_state (Some (JsonObject (stringify_creation earlier_creation))))
     = [later_creation, earlier_creation]
   \<and> history (importFile vision_env busy_state (Some (JsonObject anonymous_file)))
     = [imported_creation vision_env anonymous_file, earlier_creation]
   \<and> id' (imported_creation vision_env anonymous_file) = ''uuid-1''
   \<and> imported_creation vision_env (stringify_creation earlier_creation) = earlier_creation"
proof -
  have 1: "json_id (stringify_creation earlier_creation) \<noteq> []
           \<and> json_id (stringify_creation earlier_creation) \<in> id' ` set (history full_state)"
    by (simp add: stringify_creation_def earlier_creation_def full_state_def idle_state_def)
  have 2: "id' (imported_creation vision_env anonymous_file) \<notin> id' ` set (history busy_state)"
    by (simp add: imported_creation_def anonymous_file_def vision_env_def base_env_def
          busy_state_def idle_state_def earlier_creation_def)
  have 3: "id' earlier_creation \<noteq> [] \<and> timestamp earlier_creation \<noteq> InvalidDate"
    by (simp add: earlier_creation_def)
  have 4: "history full_state = [later_creation, earlier_creation]"
          "history busy_state = [earlier_creation]"
    by (simp_all add: full_state_def busy_state_def idle_state_def)
  have 5: "json_id anonymous_file = []" "randomUUID vision_env = ''uuid-1''"
    by (simp_all add: anonymous_file_def vision_env_def base_env_def)
  show ?thesis
    using import_without_duplicates [where e = vision_env and s = full_state
            and parsed = "stringify_creation earlier_creation" and c = earlier_creation]
          import_without_duplicates [where e = vision_env and s = busy_state
            and parsed = anonymous_file and c = earlier_creation]
          1 2 3 4 5
    by simp
qed

end
